theory Spec2Isabelle
  imports Main "HOL-Library.Word"
begin

unbundle bit_operations_syntax

section \<open>The value universe of the host language\<close>

text \<open>
  The class \<open>Try<T>\<close> has exactly two subclasses, \<open>Success<T>\<close> with the read-only field
  \<open>value: T\<close> and \<open>Failure<T>\<close> with the read-only field \<open>e: unknown\<close>. Both fields are
  assigned once, in the constructor, so an instance is a tagged immutable value and
  equality of instances is equality of tag and field.

  The payload of a \<open>Failure\<close> is \<open>unknown\<close>: anything that can be thrown. The datatype
  is therefore declared over two type parameters and the second one is fixed to the
  value universe \<open>jsval\<close> below, which in turn contains \<open>Try\<close> instances.
\<close>

datatype ('t, 'x) Try = Success 't | Failure 'x

text \<open>
  The values of the language, one constructor for each of its types: \<open>undefined\<close>,
  \<open>null\<close>, booleans, numbers, big integers, strings, symbols, and objects. A number is
  its IEEE 754 binary64 encoding, sign bit first, so that both zeros, the infinities
  and the NaNs are values. A symbol and an object are references. Three kinds of
  object are told apart: an object made by \<open>new Error(message)\<close> and left as it is, which
  is what this class itself constructs; an instance of \<open>Try\<close>; and any other object,
  among them the errors the engine raises, objects with a \<open>toString\<close> of their own and
  objects without a prototype. The engine is the one \<open>package.json\<close> names, Node 20,
  with its built-in prototypes as shipped.
\<close>

datatype jsval =
    JUndefined
  | JNull
  | JBool bool
  | JNum "64 word"
  | JBigInt int
  | JStr string
  | JSymbol nat
  | JError string
  | JTry "(jsval, jsval) Try"
  | JObject nat

type_synonym 't TryT = "('t, jsval) Try"

text \<open>
  A call either returns a value or throws a payload. The thrown payload is the left
  summand. Callbacks are impure: they run in the caller's state \<open>'s\<close> and hand back the
  state they leave behind, also when they throw. Every callback is taken to complete,
  by returning or by throwing; the class itself has no loop and no recursion.
\<close>

type_synonym 'a completion = "jsval + 'a"

abbreviation Throw :: "jsval \<Rightarrow> jsval + 'a" where
  "Throw \<equiv> Inl"

abbreviation Return :: "'a \<Rightarrow> jsval + 'a" where
  "Return \<equiv> Inr"

type_synonym ('s, 'a) comp = "'s \<Rightarrow> 'a completion \<times> 's"

text \<open>An expression that evaluates to a value without touching the state.\<close>

definition pure :: "'a \<Rightarrow> ('s, 'a) comp" where
  "pure x = (\<lambda>s. (Return x, s))"

text \<open>The statement \<open>throw y\<close>.\<close>

definition throw :: "jsval \<Rightarrow> ('s, 'a) comp" where
  "throw y = (\<lambda>s. (Throw y, s))"

text \<open>
  Evaluation order of \<open>a.m(...)\<close> where the receiver \<open>a\<close> is itself a call: the receiver is
  evaluated first; if it throws, the method is never called.
\<close>

definition seq :: "('s, 'a) comp \<Rightarrow> ('a \<Rightarrow> ('s, 'b) comp) \<Rightarrow> ('s, 'b) comp" where
  "seq c k = (\<lambda>s. case c s of
                 (Inr r, s') \<Rightarrow> k r s'
               | (Inl x, s') \<Rightarrow> (Throw x, s'))"

subsection \<open>Truthiness, the loose null test and string conversion\<close>

text \<open>
  \<open>ToBoolean\<close>: what a conditional does with its operand. A number is falsy when it is
  a zero of either sign or a NaN: with the sign bit masked away, the encoding of a zero
  is \<open>0\<close>, and the encodings above that of infinity, \<open>0x7FF0000000000000\<close>, are the NaNs.
\<close>

fun ToBoolean :: "jsval \<Rightarrow> bool" where
  "ToBoolean JUndefined = False"
| "ToBoolean JNull = False"
| "ToBoolean (JBool b) = b"
| "ToBoolean (JNum w) =
     (let magnitude = w AND 0x7FFFFFFFFFFFFFFF
      in magnitude \<noteq> 0 \<and> magnitude \<le> 0x7FF0000000000000)"
| "ToBoolean (JBigInt i) = (i \<noteq> 0)"
| "ToBoolean (JStr s) = (s \<noteq> [])"
| "ToBoolean (JSymbol n) = True"
| "ToBoolean (JError m) = True"
| "ToBoolean (JTry t) = True"
| "ToBoolean (JObject r) = True"


text \<open>
  \<open>BigInt::toString\<close> in radix 10: all the decimal digits, most significant first, after
  a minus sign for a negative value.
\<close>

definition digit :: "nat \<Rightarrow> char" where
  "digit d = ''0123456789'' ! (d mod 10)"

fun decimal :: "nat \<Rightarrow> string" where
  "decimal n = (if n < 10 then [digit n] else decimal (n div 10) @ [digit n])"

declare decimal.simps [simp del]

definition BigIntToString :: "int \<Rightarrow> string" where
  "BigIntToString i = (if 0 \<le> i then decimal (nat i) else CHR ''-'' # decimal (nat (- i)))"

text \<open>
  What the class does not determine about string conversion is a parameter of the
  model, so that every statement below holds whatever the engine and the caller's
  objects do:
  \<^item> \<open>NumberToString\<close>, the digits \<open>Number::toString\<close> gives for a binary64 value;
  \<^item> \<open>ObjectToString\<close>, the conversion of an object that is neither an untouched \<open>Error\<close>
    nor a \<open>Try\<close>: it runs the object's own \<open>Symbol.toPrimitive\<close>, \<open>toString\<close> and
    \<open>valueOf\<close>, so it can change the state, and it throws when these throw or yield no
    primitive (as for an object without a prototype);
  \<^item> \<open>SymbolError\<close>, the \<open>TypeError\<close> the engine throws when a symbol is converted.
\<close>

record 's host =
  NumberToString :: "64 word \<Rightarrow> string"
  ObjectToString :: "nat \<Rightarrow> ('s, string) comp"
  SymbolError :: jsval

text \<open>
  \<open>ToString\<close>, applied by a template literal \<open>`... ${v}`\<close> to the interpolated value. A
  symbol has no string conversion: the engine throws. An untouched \<open>Error\<close> prints through
  \<open>Error.prototype.toString\<close> as its name and message, and an instance of \<open>Try\<close>, whose
  classes define no \<open>toString\<close>, through \<open>Object.prototype.toString\<close>.
\<close>

fun ToString :: "'s host \<Rightarrow> jsval \<Rightarrow> ('s, string) comp" where
  "ToString h JUndefined = pure ''undefined''"
| "ToString h JNull = pure ''null''"
| "ToString h (JBool b) = pure (if b then ''true'' else ''false'')"
| "ToString h (JNum w) = pure (NumberToString h w)"
| "ToString h (JBigInt i) = pure (BigIntToString i)"
| "ToString h (JStr s) = pure s"
| "ToString h (JSymbol n) = throw (SymbolError h)"
| "ToString h (JError m) = pure (if m = [] then ''Error'' else ''Error: '' @ m)"
| "ToString h (JTry t) = pure ''[object Object]''"
| "ToString h (JObject r) = ObjectToString h r"

section \<open>The class Try\<close>

subsection \<open>Construction\<close>

text \<open>\<open>static from<T>(x: T): Try<T> { return new Success(x); }\<close>\<close>

definition from_try :: "'t \<Rightarrow> 't TryT" where
  "from_try x = Success x"

text \<open>
  \<open>static of<T>(f: () => T): Try<T> { try { return new Success(f()); } catch (e) { return new Failure(e); } }\<close>
\<close>

definition of_try :: "('s, 't) comp \<Rightarrow> ('s, 't TryT) comp" where
  "of_try f = (\<lambda>s. case f s of
                  (Inr v, s') \<Rightarrow> (Return (Success v), s')
                | (Inl x, s') \<Rightarrow> (Return (Failure x), s'))"

subsection \<open>Methods without callbacks\<close>

text \<open>\<open>Success.get\<close> returns \<open>this.value\<close>; \<open>Failure.get\<close> is \<open>throw this.e\<close>.\<close>

fun get :: "'t TryT \<Rightarrow> 't completion" where
  "get (Success v) = Return v"
| "get (Failure x) = Throw x"

text \<open>\<open>flat<U = T>(this: Try<Try<U>>): Try<U> { return this.get(); }\<close>, inherited by both subclasses.\<close>

definition flat :: "('u TryT) TryT \<Rightarrow> ('u TryT) completion" where
  "flat this = get this"

fun isFailure :: "'t TryT \<Rightarrow> bool" where
  "isFailure (Success v) = False"
| "isFailure (Failure x) = True"

fun isSuccess :: "'t TryT \<Rightarrow> bool" where
  "isSuccess (Success v) = True"
| "isSuccess (Failure x) = False"

text \<open>
  \<open>Success.failed\<close> is \<open>new Failure<X>(new Error("Cannot call failed() on instance of Success"))\<close>;
  \<open>Failure.failed\<close> is \<open>new Success(this.e as X)\<close>.
\<close>

fun failed :: "'t TryT \<Rightarrow> jsval TryT" where
  "failed (Success v) = Failure (JError ''Cannot call failed() on instance of Success'')"
| "failed (Failure x) = Success x"

subsection \<open>Methods with callbacks\<close>



text \<open>
  \<open>Success.filter\<close> is
  \<open>f(this.value) ? this : new Failure<T>(new Error(`Predicate does not hold for ${this.value}`))\<close>,
  with no handler, neither around the call of \<open>f\<close> nor around the template literal.
  \<open>Failure.filter\<close> returns \<open>this\<close>.
\<close>

fun filter_try :: "'s host \<Rightarrow> jsval TryT \<Rightarrow> (jsval \<Rightarrow> ('s, jsval) comp) \<Rightarrow> ('s, jsval TryT) comp" where
  "filter_try h (Success v) f =
     seq (f v) (\<lambda>r. if ToBoolean r then pure (Success v)
                     else seq (ToString h v)
                            (\<lambda>m. pure (Failure (JError (''Predicate does not hold for '' @ m)))))"
| "filter_try h (Failure x) f = pure (Failure x)"

text \<open>
  \<open>Success.flatMap\<close> is \<open>try { return f(this.value); } catch (e) { return new Failure<U>(e); }\<close>;
  \<open>Failure.flatMap\<close> returns \<open>this\<close>.
\<close>

fun flatMap :: "'t TryT \<Rightarrow> ('t \<Rightarrow> ('s, 'u TryT) comp) \<Rightarrow> ('s, 'u TryT) comp" where
  "flatMap (Success v) f = (\<lambda>s. case f v s of
        (Inr r, s') \<Rightarrow> (Return r, s')
      | (Inl y, s') \<Rightarrow> (Return (Failure y), s'))"
| "flatMap (Failure x) f = pure (Failure x)"

text \<open>\<open>Success.map\<close> is \<open>Try.of(() => f(this.value))\<close>; \<open>Failure.map\<close> returns \<open>this\<close>.\<close>

fun map_try :: "'t TryT \<Rightarrow> ('t \<Rightarrow> ('s, 'u) comp) \<Rightarrow> ('s, 'u TryT) comp" where
  "map_try (Success v) f = of_try (f v)"
| "map_try (Failure x) f = pure (Failure x)"


text \<open>
  \<open>Success.reduce\<close> is \<open>return f(this.value);\<close> and \<open>Failure.reduce\<close> is
  \<open>return g(this.e as X);\<close>, both without a handler.
\<close>

fun reduce :: "'t TryT \<Rightarrow> ('t \<Rightarrow> ('s, 'u) comp) \<Rightarrow> (jsval \<Rightarrow> ('s, 'u) comp) \<Rightarrow> ('s, 'u) comp" where
  "reduce (Success v) f g = f v"
| "reduce (Failure x) f g = g x"

subsection \<open>Observing callback invocations\<close>

text \<open>
  To speak about which callbacks a method invokes, a callback is wrapped so that every
  invocation appends its label to a log kept beside the caller's state.
\<close>

definition logged :: "'l \<Rightarrow> ('a \<Rightarrow> ('s, 'b) comp) \<Rightarrow> 'a \<Rightarrow> ('l list \<times> 's, 'b) comp" where
  "logged l f x = (\<lambda>(ls, s). case f x s of (r, s') \<Rightarrow> (r, (ls @ [l], s')))"

section \<open>Properties\<close>

subsection \<open>Auxiliary facts\<close>


text \<open>\<open>flatMap\<close> itself never throws: whatever the callback throws is caught.\<close>

lemma flatMap_never_throws: "flatMap t f s \<noteq> (Throw y, s')"
  by (cases t) (auto simp: pure_def split: sum.splits prod.splits)

lemma flatMap_catches:
  "f x s = (Throw y, s') \<Longrightarrow> flatMap (from_try x) f s = (Return (Failure y), s')"
  by (simp add: from_try_def)

text \<open>\<open>filter\<close> has no handler: what the predicate throws leaves \<open>filter\<close> as it is.\<close>

lemma filter_try_propagates:
  "p x s = (Throw y, s') \<Longrightarrow> filter_try h (Success x) p s = (Throw y, s')"
  by (simp add: seq_def)












subsection \<open>Predicates on the variant\<close>

text \<open>
  C7: for every instance, \<open>isSuccess()\<close> and \<open>isFailure()\<close> are logical complements, so
  exactly one of the two is true; and for every value \<open>v\<close>, \<open>Try.from(v).isSuccess()\<close> is
  true and \<open>Try.from(v).isFailure()\<close> is false.
\<close>

theorem isSuccess_isFailure_complement:
  "isSuccess t = (\<not> isFailure t) \<and> isSuccess (from_try v) \<and> \<not> isFailure (from_try v)"
  by (cases t) (simp_all add: from_try_def)

subsection \<open>Extraction and flattening\<close>

text \<open>
  C5: \<open>get()\<close> on a \<open>Success\<close> returns exactly the stored value, and \<open>get()\<close> on a
  \<open>Failure\<close> throws exactly the stored payload. There is no third behaviour: \<open>get()\<close>
  throws if and only if the instance is a \<open>Failure\<close>, and returns if and only if it is a
  \<open>Success\<close>.
\<close>

theorem get_returns_or_raises:
  "get (Success v) = Return v
   \<and> get (Failure x) = Throw x
   \<and> ((\<exists>y. get t = Throw y) = isFailure t)
   \<and> ((\<exists>w. get t = Return w) = isSuccess t)"
  by (cases t) simp_all

text \<open>
  C2, as the code has it: \<open>flat()\<close> on a \<open>Success\<close> returns the stored inner instance as it
  is, whether that instance is a \<open>Success\<close> or a \<open>Failure\<close>; it does not throw.
\<close>

theorem flat_outer_Success_returns_inner: "flat (Success inner) = Return inner"
  by (simp add: flat_def)

text \<open>
  C2, as the specification words it (the call throws when the outer instance is a
  \<open>Success\<close> and the inner one a \<open>Failure\<close>), fails: with the inner instance
  \<open>Failure(new Error("boom"))\<close> the call returns that inner instance and throws nothing.
\<close>

theorem flat_inner_Failure_counterexample:
  "flat (Success (Failure (JError ''boom'') :: jsval TryT)) = Return (Failure (JError ''boom''))
   \<and> flat (Success (Failure (JError ''boom'') :: jsval TryT)) \<noteq> Throw (JError ''boom'')"
  by (simp add: flat_def)

text \<open>
  C8: \<open>flat()\<close> on a \<open>Failure\<close> does not return that \<open>Failure\<close>: it delegates to \<open>get()\<close>
  and so throws the stored payload.
\<close>

theorem flat_outer_Failure_raises:
  "flat (Failure x) = Throw x \<and> flat (Failure x) \<noteq> Return (Failure x)"
  by (simp add: flat_def)

subsection \<open>Inversion\<close>

text \<open>
  C6: \<open>failed()\<close> on a \<open>Success\<close> gives a \<open>Failure\<close> whose payload is the constructed
  error "Cannot call failed() on instance of Success", and \<open>failed()\<close> on a \<open>Failure\<close>
  with payload \<open>x\<close> gives a \<open>Success\<close> whose value is exactly \<open>x\<close>. Both results are new
  instances: their variant differs from the receiver's.
\<close>

theorem failed_inverts:
  "failed (Success v) = Failure (JError ''Cannot call failed() on instance of Success'')
   \<and> isFailure (failed (Success v))
   \<and> failed (Failure x) = Success x
   \<and> get (failed (Failure x)) = Return x"
  by simp

subsection \<open>The monad laws\<close>

text \<open>
  C1: \<open>flatMap\<close> satisfies the three monad laws.
  Left identity: for every value \<open>x\<close> and every function \<open>f\<close> that returns an instance at
  \<open>x\<close>, \<open>Try.from(x).flatMap(f)\<close> is \<open>f(x)\<close>: the same result and the same effect on the
  state. Right identity: for every instance \<open>m\<close>, \<open>m.flatMap(Try.from)\<close> is \<open>m\<close>.
  Associativity: for every instance \<open>m\<close> and all functions \<open>f\<close> and \<open>g\<close>,
  \<open>m.flatMap(f).flatMap(g)\<close> is \<open>m.flatMap(x => f(x).flatMap(g))\<close>; this one holds also
  when \<open>f\<close> or \<open>g\<close> throws.
\<close>

theorem flatMap_monad_laws:
  "(f x s = (Return r, s') \<longrightarrow> flatMap (from_try x) f s = f x s)
   \<and> flatMap m (\<lambda>x. pure (from_try x)) = pure m
   \<and> seq (flatMap m f) (\<lambda>r. flatMap r g) = flatMap m (\<lambda>x. seq (f x) (\<lambda>r. flatMap r g))"
proof (intro conjI impI)
  assume "f x s = (Return r, s')"
  then show "flatMap (from_try x) f s = f x s"
    by (simp add: from_try_def)
next
  show "flatMap m (\<lambda>x. pure (from_try x)) = pure m"
    by (cases m) (simp_all add: pure_def from_try_def)
next
  show "seq (flatMap m f) (\<lambda>r. flatMap r g) = flatMap m (\<lambda>x. seq (f x) (\<lambda>r. flatMap r g))"
  proof (cases m)
    case (Success v)
    show ?thesis
    proof
      fix s
      show "seq (flatMap m f) (\<lambda>r. flatMap r g) s
          = flatMap m (\<lambda>x. seq (f x) (\<lambda>r. flatMap r g)) s"
        unfolding Success
        by (cases "f v s")
           (auto simp: seq_def pure_def flatMap_never_throws split: sum.splits prod.splits)
    qed
  next
    case (Failure x)
    then show ?thesis
      by (simp add: seq_def pure_def)
  qed
qed

theorem flatMap_monad_laws_witness:
  "(\<lambda>x. pure (from_try (2 * x))) (5::int) () = (Return (Success (10::int)), ())
   \<and> flatMap (from_try (5::int)) (\<lambda>x. pure (from_try (2 * x))) () = (Return (Success (10::int)), ())"
proof -
  let ?f = "(\<lambda>x. pure (from_try (2 * x))) :: int \<Rightarrow> (unit, int TryT) comp"
  have h: "?f 5 () = (Return (Success 10), ())"
    by (simp add: pure_def from_try_def)
  have "flatMap (from_try 5) ?f () = ?f 5 ()"
    using h flatMap_monad_laws [where f = ?f and x = 5 and s = "()" and r = "Success 10" and s' = "()",
        THEN conjunct1]
    by (rule rev_mp)
  with h show ?thesis by simp
qed

subsection \<open>Filtering\<close>




subsection \<open>Partial functions\<close>






subsection \<open>Folding\<close>

text \<open>
  C9: \<open>reduce\<close> invokes exactly one of its two arguments: on a \<open>Success\<close> the whole call is
  the call of \<open>f\<close> on the value, on a \<open>Failure\<close> it is the call of \<open>g\<close> on the payload, and
  the log of invocations grows by that one entry. It catches nothing: when the
  invoked function throws, \<open>reduce\<close> throws the same payload, whereas \<open>map\<close> and
  \<open>flatMap\<close> turn a throwing callback into a returned \<open>Failure\<close>.
\<close>

theorem reduce_spec:
  "reduce (Success v) f g = f v
   \<and> reduce (Failure x) f g = g x
   \<and> fst (snd (reduce (Success v) (logged F f) (logged G g) (ls, s))) = ls @ [F]
   \<and> fst (snd (reduce (Failure x) (logged F f) (logged G g) (ls, s))) = ls @ [G]
   \<and> (f v s = (Throw y, s') \<longrightarrow>
        reduce (Success v) f g s = (Throw y, s')
        \<and> map_try (Success v) f s = (Return (Failure y), s'))
   \<and> (g x s = (Throw y, s') \<longrightarrow> reduce (Failure x) f g s = (Throw y, s'))
   \<and> (h v s = (Throw y, s') \<longrightarrow> flatMap (Success v) h s = (Return (Failure y), s'))"
  by (simp add: logged_def of_try_def split: prod.splits)

theorem reduce_spec_witness:
  "reduce (Success (1::int)) (\<lambda>v s. (Throw (JStr ''f''), s)) (\<lambda>x s. (Throw (JStr ''g''), s)) ()
      = (Throw (JStr ''f'') :: int completion, ())
   \<and> map_try (Success (1::int)) (\<lambda>v s. (Throw (JStr ''f'') :: int completion, s)) ()
      = (Return (Failure (JStr ''f'')), ())
   \<and> reduce (Failure JNull :: int TryT) (\<lambda>v s. (Throw (JStr ''f''), s)) (\<lambda>x s. (Throw (JStr ''g''), s)) ()
      = (Throw (JStr ''g'') :: int completion, ())
   \<and> flatMap (Success (1::int)) (\<lambda>v s. (Throw (JStr ''f'') :: (int TryT) completion, s)) ()
      = (Return (Failure (JStr ''f'')), ())"
proof -
  let ?f = "(\<lambda>v s. (Throw (JStr ''f''), s)) :: int \<Rightarrow> (unit, int) comp"
  let ?g = "(\<lambda>x s. (Throw (JStr ''g''), s)) :: jsval \<Rightarrow> (unit, int) comp"
  let ?h = "(\<lambda>v s. (Throw (JStr ''f''), s)) :: int \<Rightarrow> (unit, int TryT) comp"
  have hf: "?f 1 () = (Throw (JStr ''f''), ())" by simp
  have hg: "?g JNull () = (Throw (JStr ''g''), ())" by simp
  have hh: "?h 1 () = (Throw (JStr ''f''), ())" by simp
  have "reduce (Success 1) ?f ?g () = (Throw (JStr ''f''), ())
        \<and> map_try (Success 1) ?f () = (Return (Failure (JStr ''f'')), ())"
    using hf reduce_spec [where f = ?f and v = 1 and s = "()" and y = "JStr ''f''" and s' = "()" and g = ?g,
        THEN conjunct2, THEN conjunct2, THEN conjunct2, THEN conjunct2, THEN conjunct1]
    by (rule rev_mp)
  moreover have "reduce (Failure JNull) ?f ?g () = (Throw (JStr ''g''), ())"
    using hg reduce_spec [where g = ?g and x = JNull and s = "()" and y = "JStr ''g''" and s' = "()" and f = ?f,
        THEN conjunct2, THEN conjunct2, THEN conjunct2, THEN conjunct2, THEN conjunct2, THEN conjunct1]
    by (rule rev_mp)
  moreover have "flatMap (Success 1) ?h () = (Return (Failure (JStr ''f'')), ())"
    using hh reduce_spec [where h = ?h and v = 1 and s = "()" and y = "JStr ''f''" and s' = "()",
        THEN conjunct2, THEN conjunct2, THEN conjunct2, THEN conjunct2, THEN conjunct2, THEN conjunct2]
    by (rule rev_mp)
  ultimately show ?thesis by simp
qed

end
